theory Spec2Isabelle
  imports Complex_Main "HOL-Library.Sublist"
begin

section \<open>Conversation history manager: topics, matching, drift analysis\<close>

text \<open>
  A shallow embedding of \<^verbatim>\<open>src/chatbot/history.py\<close>: the classes \<^verbatim>\<open>Topic\<close> and
  \<^verbatim>\<open>HistoryManager\<close>. Python objects are shared by reference (the list
  \<^verbatim>\<open>self.topics\<close> and the attribute \<^verbatim>\<open>self.current_topic\<close> may name the same
  \<^verbatim>\<open>Topic\<close>), so topics live in an explicit store and are named by references.
  Coroutines are modelled as run to completion, one after the other; an exception is the
  \<open>Inl\<close> branch of a sum, which does not carry the state reached when it was raised.
\<close>

subsection \<open>Data\<close>

datatype error = TypeError | ValueError

text \<open>An embedding argument is \<^verbatim>\<open>None\<close> or a sequence of numbers (a list or an array).\<close>

datatype embedding = PyNone | Vec "real list"

text \<open>A message is the dictionary \<^verbatim>\<open>{"role": role, "content": message}\<close>.\<close>

record message =
  role :: string
  content :: string

text \<open>The dictionary built by \<^verbatim>\<open>Topic._index_file\<close>.\<close>

record file_info =
  file_name :: string
  full_path :: string
  file_embedding :: "real list"

text \<open>
  \<^verbatim>\<open>class Topic\<close>. The dictionary \<^verbatim>\<open>file_embeddings\<close> keeps insertion order, so it is an
  association list. The attributes \<^verbatim>\<open>embedding_cache\<close> and \<^verbatim>\<open>folder_structure\<close> of a
  topic are read by none of the functions below and are left out.
\<close>

record Topic =
  name :: string
  description :: string
  embedded_description :: "real list"
  history :: "message list"
  history_embeddings :: "embedding list"
  file_embeddings :: "(string \<times> file_info) list"

type_synonym ref = nat

text \<open>
  \<^verbatim>\<open>class HistoryManager\<close>, together with the store of \<^verbatim>\<open>Topic\<close> objects
  (\<open>objects\<close>, with \<open>next_ref\<close> the next unused reference) and the number of requests
  made so far to the external summarizer (\<open>helper_calls\<close>). The attributes
  \<^verbatim>\<open>manager\<close> and \<^verbatim>\<open>projects\<close> are used only by the prompt assembly, which is
  not modelled, and are left out.
\<close>

record HistoryManager =
  top_k :: nat
  similarity_threshold :: real
  topics :: "ref list"
  current_topic :: ref
  embedding_cache :: "string \<rightharpoonup> real list"
  objects :: "ref \<Rightarrow> Topic"
  next_ref :: ref
  helper_calls :: nat

text \<open>\<^verbatim>\<open>Topic.__init__(name="", description="")\<close>\<close>

definition new_Topic :: "string \<Rightarrow> string \<Rightarrow> Topic" where
  "new_Topic nm desc =
     \<lparr>name = nm, description = desc, embedded_description = [], history = [],
      history_embeddings = [], file_embeddings = []\<rparr>"

text \<open>
  \<^verbatim>\<open>HistoryManager.__init__(manager, top_k=2, similarity_threshold=0.5)\<close>: the first
  topic, empty and unnamed, is allocated at reference 0.
\<close>

definition init_manager :: "nat \<Rightarrow> real \<Rightarrow> HistoryManager" where
  "init_manager k thr =
     \<lparr>top_k = k, similarity_threshold = thr, topics = [], current_topic = 0,
      embedding_cache = Map.empty, objects = (\<lambda>_. new_Topic [] []), next_ref = 1,
      helper_calls = 0\<rparr>"

definition update_topic :: "ref \<Rightarrow> (Topic \<Rightarrow> Topic) \<Rightarrow> HistoryManager \<Rightarrow> HistoryManager" where
  "update_topic r f s = s\<lparr>objects := (objects s)(r := f (objects s r))\<rparr>"

subsection \<open>Topic\<close>

text \<open>\<^verbatim>\<open>Topic.add_message(role, message, embedding)\<close>: two appends.\<close>

definition Topic_add_message :: "string \<Rightarrow> string \<Rightarrow> embedding \<Rightarrow> Topic \<Rightarrow> Topic" where
  "Topic_add_message r m e t =
     t\<lparr>history := history t @ [\<lparr>role = r, content = m\<rparr>],
       history_embeddings := history_embeddings t @ [e]\<rparr>"

subsection \<open>Switching the current topic\<close>

text \<open>
  \<^verbatim>\<open>HistoryManager.switch_topic(topic)\<close>. The lock is created by the call itself and
  is free when taken, so the body runs at once.
\<close>

definition switch_topic :: "ref \<Rightarrow> HistoryManager \<Rightarrow> HistoryManager" where
  "switch_topic t s =
     (if name (objects s t) \<noteq> name (objects s (current_topic s)) then
        (let s1 = (if \<not> list_ex (\<lambda>r. name (objects s r) = name (objects s (current_topic s))) (topics s)
                   then s\<lparr>topics := topics s @ [current_topic s]\<rparr> else s)
         in s1\<lparr>current_topic := t\<rparr>)
      else s)"

subsection \<open>External collaborators\<close>

text \<open>
  Three things the code calls are not part of it and are parameters of the model:
  \<^item> \<open>cs x y\<close> is \<^verbatim>\<open>cosine_similarity([x], [y])[0][0]\<close> of scikit-learn, which returns a
    number or raises;
  \<^item> \<open>ollama text\<close> is \<^verbatim>\<open>OllamaClient.fetch_embedding(text)\<close>, with \<open>[]\<close> for every
    result that Python takes as false (\<^verbatim>\<open>None\<close> or an empty sequence);
  \<^item> \<open>helper k h\<close> is the outcome of request number \<open>k\<close> to the summarizer for the
    history \<open>h\<close> (lines 422 to 434 of \<^verbatim>\<open>generate_topic_info_from_history\<close>): an
    exception, or the list \<^verbatim>\<open>matches\<close> found in the filtered response.
\<close>

type_synonym similarity = "embedding \<Rightarrow> embedding \<Rightarrow> error + real"

datatype outcome = Raised | Matches "string list"

type_synonym summarizer = "nat \<Rightarrow> message list \<Rightarrow> outcome"

text \<open>
  The library function over the reals, for the inputs on which the model is run:
  \<^verbatim>\<open>cosine_similarity\<close> validates both arguments and raises \<^verbatim>\<open>ValueError\<close> for a row
  with no feature, for rows of different lengths and for a row that is not numeric;
  otherwise each row is divided by its Euclidean norm (a zero norm is replaced by 1)
  and the result is the dot product.
\<close>

definition dot :: "real list \<Rightarrow> real list \<Rightarrow> real" where
  "dot a b = sum_list (map2 (*) a b)"

definition row_norm :: "real list \<Rightarrow> real" where
  "row_norm a = (if sqrt (dot a a) = 0 then 1 else sqrt (dot a a))"

fun cosine_similarity :: similarity where
  "cosine_similarity (Vec a) (Vec b) =
     (if a = [] \<or> b = [] \<or> length a \<noteq> length b then Inl ValueError
      else Inr (dot a b / (row_norm a * row_norm b)))"
| "cosine_similarity _ _ = Inl ValueError"

text \<open>A loop whose body may raise: the first exception ends it.\<close>

fun map_err :: "('a \<Rightarrow> error + 'b) \<Rightarrow> 'a list \<Rightarrow> error + 'b list" where
  "map_err f [] = Inr []"
| "map_err f (x # xs) =
     (case f x of Inl e \<Rightarrow> Inl e
      | Inr y \<Rightarrow> (case map_err f xs of Inl e \<Rightarrow> Inl e | Inr ys \<Rightarrow> Inr (y # ys)))"

subsection \<open>Best context of a topic\<close>

text \<open>\<^verbatim>\<open>np.argmax\<close>: the index of the first occurrence of the greatest entry.\<close>

fun argmax_from :: "real \<Rightarrow> nat \<Rightarrow> nat \<Rightarrow> real list \<Rightarrow> nat" where
  "argmax_from best bi i [] = bi"
| "argmax_from best bi i (x # xs) =
     (if x > best then argmax_from x i (Suc i) xs else argmax_from best bi (Suc i) xs)"

definition argmax :: "real list \<Rightarrow> nat" where
  "argmax xs = (case xs of [] \<Rightarrow> 0 | x # rest \<Rightarrow> argmax_from x 0 1 rest)"

text \<open>
  \<^verbatim>\<open>Topic.get_relevant_context(embedding)\<close>. The library is called once with all the
  stored embeddings as rows; it raises when it rejects the query or any row.
\<close>

definition get_relevant_context :: "similarity \<Rightarrow> embedding \<Rightarrow> Topic \<Rightarrow> error + real \<times> int" where
  "get_relevant_context cs e t =
     (if history_embeddings t = [] then Inr (0, - 1)
      else (case map_err (cs e) (history_embeddings t) of
              Inl x \<Rightarrow> Inl x
            | Inr similarities \<Rightarrow>
                (let best_index = argmax similarities
                 in Inr (similarities ! best_index, int best_index))))"

subsection \<open>The embedding cache\<close>

text \<open>
  \<^verbatim>\<open>HistoryManager.fetch_embedding(text)\<close>: a cached value is returned as it is; a
  computed one is cached when Python takes it as true, and otherwise the result is the
  empty array.
\<close>

definition fetch_embedding ::
  "(string \<Rightarrow> real list) \<Rightarrow> string \<Rightarrow> HistoryManager \<Rightarrow> real list \<times> HistoryManager" where
  "fetch_embedding ollama text s =
     (case embedding_cache s text of
        Some e \<Rightarrow> (e, s)
      | None \<Rightarrow>
          (let e = ollama text
           in if e \<noteq> [] then (e, s\<lparr>embedding_cache := (embedding_cache s)(text \<mapsto> e)\<rparr>)
              else ([], s)))"

subsection \<open>Matching an embedding to a stored topic\<close>

text \<open>
  The inner \<^verbatim>\<open>compute_similarity(topic)\<close> of \<^verbatim>\<open>_match_topic\<close>. The test
  \<^verbatim>\<open>len(topic.embedded_description) == 0 or len(embedding) == 0\<close> evaluates
  \<^verbatim>\<open>len(embedding)\<close> only when the description embedding is not empty, and
  \<^verbatim>\<open>len(None)\<close> raises \<^verbatim>\<open>TypeError\<close>.
\<close>

definition compute_similarity :: "similarity \<Rightarrow> embedding \<Rightarrow> Topic \<Rightarrow> error + real" where
  "compute_similarity cs e t =
     (if embedded_description t = [] then Inr 0
      else (case e of
              PyNone \<Rightarrow> Inl TypeError
            | Vec v \<Rightarrow> if v = [] then Inr 0 else cs (Vec v) (Vec (embedded_description t))))"

text \<open>The selection loop of \<^verbatim>\<open>_match_topic\<close>, from \<^verbatim>\<open>(None, 0.0)\<close>.\<close>

fun select_best :: "real \<Rightarrow> ref option \<times> real \<Rightarrow> (real \<times> ref) list \<Rightarrow> ref option \<times> real" where
  "select_best thr (best_topic, best_similarity) [] = (best_topic, best_similarity)"
| "select_best thr (best_topic, best_similarity) ((similarity, topic) # rest) =
     (if similarity > best_similarity \<and> similarity \<ge> thr
      then select_best thr (Some topic, similarity) rest
      else select_best thr (best_topic, best_similarity) rest)"

text \<open>
  \<^verbatim>\<open>HistoryManager._match_topic(embedding, exclude_topic)\<close>. Topics are compared by
  identity (\<^verbatim>\<open>topic != exclude_topic\<close>); \<^verbatim>\<open>asyncio.gather\<close> keeps the order of the
  list and raises the first exception.
\<close>

definition match_topic ::
  "similarity \<Rightarrow> embedding \<Rightarrow> ref option \<Rightarrow> HistoryManager \<Rightarrow> error + ref option" where
  "match_topic cs e exclude_topic s =
     (if length (topics s) = 0 then Inr None
      else (case map_err (\<lambda>r. case compute_similarity cs e (objects s r) of
                                 Inl x \<Rightarrow> Inl x | Inr v \<Rightarrow> Inr (v, r))
                         (filter (\<lambda>r. Some r \<noteq> exclude_topic) (topics s)) of
              Inl x \<Rightarrow> Inl x
            | Inr results \<Rightarrow> Inr (fst (select_best (similarity_threshold s) (None, 0) results))))"

subsection \<open>Routing a message\<close>

text \<open>Python's truth value of the argument: \<^verbatim>\<open>None\<close> and an empty sequence are false.\<close>

fun truthy :: "embedding \<Rightarrow> bool" where
  "truthy PyNone = False"
| "truthy (Vec v) = (v \<noteq> [])"

text \<open>
  \<^verbatim>\<open>HistoryManager.add_message(role, message, embedding=None)\<close>. The last line only
  schedules \<^verbatim>\<open>_analyze_history\<close> as a task of its own; that task is the function
  \<open>analyze_history\<close> below, run later.
\<close>

definition add_message ::
  "similarity \<Rightarrow> (string \<Rightarrow> real list) \<Rightarrow> string \<Rightarrow> string \<Rightarrow> embedding \<Rightarrow> HistoryManager
   \<Rightarrow> error + HistoryManager" where
  "add_message cs ollama r m embedding s =
     (let (e, s1) = (if truthy embedding
                     then (let (v, s') = fetch_embedding ollama m s in (Vec v, s'))
                     else (embedding, s))
      in (case match_topic cs e (Some (current_topic s1)) s1 of
            Inl x \<Rightarrow> Inl x
          | Inr topic \<Rightarrow>
              (let s2 = (case topic of Some t \<Rightarrow> switch_topic t s1 | None \<Rightarrow> s1)
               in Inr (update_topic (current_topic s2) (Topic_add_message r m e) s2))))"

subsection \<open>Asking the summarizer for a name and a description\<close>

text \<open>
  Lines 435 to 442 of \<^verbatim>\<open>generate_topic_info_from_history\<close>: what one attempt
  returns, \<open>None\<close> when it raises.
\<close>

fun attempt_result :: "outcome \<Rightarrow> (string \<times> string) option" where
  "attempt_result Raised = None"
| "attempt_result (Matches ms) =
     (let extracted_topic_name = (if length ms > 0 then ms ! 0 else ''unknown'');
          extracted_topic_description = (if length ms > 1 then ms ! 1 else [])
      in if extracted_topic_name \<noteq> [] \<and> extracted_topic_description \<noteq> []
         then Some (extracted_topic_name, extracted_topic_description) else None)"

text \<open>
  The \<^verbatim>\<open>while attempt < max_retries\<close> loop; the last argument counts the requests
  made to the summarizer.
\<close>

function retry_loop ::
  "summarizer \<Rightarrow> message list \<Rightarrow> nat \<Rightarrow> nat \<Rightarrow> nat \<Rightarrow> (string \<times> string) option \<times> nat" where
  "retry_loop helper h max_retries attempt k =
     (if attempt < max_retries then
        (case attempt_result (helper k h) of
           Some info \<Rightarrow> (Some info, Suc k)
         | None \<Rightarrow> retry_loop helper h max_retries (Suc attempt) (Suc k))
      else (None, k))"
  by pat_completeness auto
termination
  by (relation "measure (\<lambda>(helper, h, max_retries, attempt, k). max_retries - attempt)") auto

declare retry_loop.simps [simp del]

text \<open>
  \<^verbatim>\<open>generate_topic_info_from_history(history, max_retries=3)\<close>; the result \<open>None\<close> is
  the pair \<^verbatim>\<open>(None, None)\<close>.
\<close>

definition generate_topic_info_from_history ::
  "summarizer \<Rightarrow> message list \<Rightarrow> nat \<Rightarrow> HistoryManager \<Rightarrow> (string \<times> string) option \<times> HistoryManager" where
  "generate_topic_info_from_history helper h max_retries s =
     (let (info, k) = retry_loop helper h max_retries 0 (helper_calls s)
      in (info, s\<lparr>helper_calls := k\<rparr>))"

subsection \<open>Drift analysis\<close>

text \<open>Python slices \<^verbatim>\<open>xs[i:]\<close> and \<^verbatim>\<open>xs[:i]\<close>; a negative index counts from the end.\<close>

definition slice_from :: "int \<Rightarrow> 'a list \<Rightarrow> 'a list" where
  "slice_from i xs = (if i \<ge> 0 then drop (nat i) xs else drop (nat (int (length xs) + i)) xs)"

definition slice_to :: "int \<Rightarrow> 'a list \<Rightarrow> 'a list" where
  "slice_to i xs = (if i \<ge> 0 then take (nat i) xs else take (nat (int (length xs) + i)) xs)"

text \<open>
  \<^verbatim>\<open>not name.strip()\<close>: the name has no character other than white space.
\<close>

definition py_isspace :: "char \<Rightarrow> bool" where
  "py_isspace c = (of_char c \<in> {9, 10, 11, 12, 13, 28, 29, 30, 31, 32, 133, 160 :: nat})"

definition unnamed :: "string \<Rightarrow> bool" where
  "unnamed nm = list_all py_isspace nm"

text \<open>
  The defaults of \<^verbatim>\<open>_analyze_history\<close>; its only call, in \<^verbatim>\<open>add_message\<close>, passes
  no argument. The threshold, the float \<^verbatim>\<open>0.7\<close>, is a parameter of the model.
\<close>

definition off_topic_frequency :: int where
  "off_topic_frequency = 4"

definition slice_size :: int where
  "slice_size = 4"

text \<open>
  Line 504:
  \<^verbatim>\<open>sum(1 for s in similarities if s < off_topic_threshold) > len(similarities) / 2\<close>
\<close>

definition drift_declared :: "real \<Rightarrow> real list \<Rightarrow> bool" where
  "drift_declared off_topic_threshold similarities =
     (real (length (filter (\<lambda>s. s < off_topic_threshold) similarities))
        > real (length similarities) / 2)"

text \<open>Lines 506 to 510: the loop over \<^verbatim>\<open>enumerate(similarities)\<close> with its \<^verbatim>\<open>break\<close>.\<close>

fun start_loop :: "real \<Rightarrow> int \<Rightarrow> int \<Rightarrow> int \<Rightarrow> real list \<Rightarrow> int" where
  "start_loop off_topic_threshold n off_topic_start_index i [] = off_topic_start_index"
| "start_loop off_topic_threshold n off_topic_start_index i (sim # rest) =
     (if sim < off_topic_threshold then n - slice_size + i
      else start_loop off_topic_threshold n off_topic_start_index (i + 1) rest)"

definition off_topic_start :: "real \<Rightarrow> int \<Rightarrow> real list \<Rightarrow> int" where
  "off_topic_start off_topic_threshold n similarities =
     start_loop off_topic_threshold n (n - slice_size) 0 similarities"

text \<open>
  \<^verbatim>\<open>asyncio.gather\<close> over \<^verbatim>\<open>fetch_embedding\<close> for the contents of the slice. The
  service is a function of the text, so the values and the cache afterwards are those
  of fetching one text after the other.
\<close>

fun fetch_embeddings ::
  "(string \<Rightarrow> real list) \<Rightarrow> string list \<Rightarrow> HistoryManager \<Rightarrow> real list list \<times> HistoryManager" where
  "fetch_embeddings ollama [] s = ([], s)"
| "fetch_embeddings ollama (t # ts) s =
     (let (e, s1) = fetch_embedding ollama t s;
          (es, s2) = fetch_embeddings ollama ts s1
      in (e # es, s2))"

text \<open>
  The loop \<^verbatim>\<open>for msg in off_topic_segment\<close> of both branches: each message is
  appended to the topic \<open>r\<close> with the embedding fetched for its content.
\<close>

fun migrate ::
  "(string \<Rightarrow> real list) \<Rightarrow> ref \<Rightarrow> message list \<Rightarrow> HistoryManager \<Rightarrow> HistoryManager" where
  "migrate ollama r [] s = s"
| "migrate ollama r (msg # rest) s =
     (let (msg_emb, s1) = fetch_embedding ollama (content msg) s
      in migrate ollama r rest
           (update_topic r (Topic_add_message (role msg) (content msg) (Vec msg_emb)) s1))"

text \<open>
  Lines 511 to 557, once drift is declared. In the branch without a match the new
  \<^verbatim>\<open>Topic\<close> is allocated at \<open>next_ref\<close>; nothing inside its \<^verbatim>\<open>try\<close> raises in
  the model; the lookup of \<^verbatim>\<open>target_topic\<close> and the truncation follow inside the same
  \<^verbatim>\<open>else\<close>.
\<close>

definition split_segment ::
  "similarity \<Rightarrow> (string \<Rightarrow> real list) \<Rightarrow> summarizer \<Rightarrow> string \<Rightarrow> int \<Rightarrow> HistoryManager
   \<Rightarrow> error + HistoryManager" where
  "split_segment cs ollama helper current_name off_topic_start_index s =
     (let off_topic_segment =
            slice_from off_topic_start_index (history (objects s (current_topic s)));
          (info, s2) = generate_topic_info_from_history helper off_topic_segment 3 s
      in (case info of
            None \<Rightarrow> Inr s2
          | Some (candidate_topic_name, candidate_topic_desc) \<Rightarrow>
              if candidate_topic_name \<noteq> [] \<and> candidate_topic_desc \<noteq> [] then
                (let (candidate_embedding, s3) = fetch_embedding ollama candidate_topic_desc s2
                 in (case match_topic cs (Vec candidate_embedding) (Some (current_topic s3)) s3 of
                       Inl x \<Rightarrow> Inl x
                     | Inr (Some matched_topic) \<Rightarrow>
                         Inr (switch_topic matched_topic
                                (migrate ollama matched_topic off_topic_segment s3))
                     | Inr None \<Rightarrow>
                         (let new_topic = next_ref s3;
                              s4 = s3\<lparr>objects := (objects s3)
                                       (new_topic := (new_Topic candidate_topic_name candidate_topic_desc)
                                                       \<lparr>embedded_description := candidate_embedding\<rparr>),
                                     next_ref := Suc new_topic\<rparr>;
                              s5 = switch_topic new_topic
                                     (migrate ollama new_topic off_topic_segment s4)
                          in Inr (case find (\<lambda>r. name (objects s5 r) = current_name) (topics s5) of
                                    None \<Rightarrow> s5
                                  | Some target_topic \<Rightarrow>
                                      update_topic target_topic
                                        (\<lambda>t. t\<lparr>history := slice_to off_topic_start_index (history t)\<rparr>)
                                        s5))))
              else Inr s2))"

text \<open>Lines 481 to 559: the second \<^verbatim>\<open>if\<close> of \<^verbatim>\<open>_analyze_history\<close>.\<close>

definition drift_phase ::
  "similarity \<Rightarrow> (string \<Rightarrow> real list) \<Rightarrow> summarizer \<Rightarrow> real \<Rightarrow> HistoryManager
   \<Rightarrow> error + HistoryManager" where
  "drift_phase cs ollama helper off_topic_threshold s =
     (let n = int (length (history (objects s (current_topic s))))
      in if n \<ge> off_topic_frequency \<and> n mod off_topic_frequency = 0 then
           (let current_name = name (objects s (current_topic s));
                candidate_slice = slice_from (- slice_size) (history (objects s (current_topic s)));
                (candidate_embeddings, s1) = fetch_embeddings ollama (map content candidate_slice) s
            in (case map_err (\<lambda>msg_emb. cs (Vec msg_emb)
                                  (Vec (embedded_description (objects s1 (current_topic s1)))))
                             candidate_embeddings of
                  Inl x \<Rightarrow> Inl x
                | Inr similarities \<Rightarrow>
                    if drift_declared off_topic_threshold similarities
                    then split_segment cs ollama helper current_name
                           (off_topic_start off_topic_threshold n similarities) s1
                    else Inr s1))
         else Inr s)"

text \<open>
  \<^verbatim>\<open>HistoryManager._analyze_history()\<close>. Only the branch in which a name and a
  description were generated returns; every other path goes on to the second
  \<^verbatim>\<open>if\<close>.
\<close>

definition analyze_history ::
  "similarity \<Rightarrow> (string \<Rightarrow> real list) \<Rightarrow> summarizer \<Rightarrow> real \<Rightarrow> HistoryManager
   \<Rightarrow> error + HistoryManager" where
  "analyze_history cs ollama helper off_topic_threshold s =
     (if length (history (objects s (current_topic s))) > 4
         \<and> unnamed (name (objects s (current_topic s))) then
        (let (info, s1) = generate_topic_info_from_history helper
                            (history (objects s (current_topic s))) 3 s
         in (case info of
               None \<Rightarrow> drift_phase cs ollama helper off_topic_threshold s1
             | Some (new_topic_name, new_topic_desc) \<Rightarrow>
                 if new_topic_name \<noteq> [] \<and> new_topic_desc \<noteq> [] then
                   (let s2 = update_topic (current_topic s1)
                               (\<lambda>t. t\<lparr>name := new_topic_name, description := new_topic_desc\<rparr>) s1;
                        (e, s3) = fetch_embedding ollama new_topic_desc s2
                    in Inr (update_topic (current_topic s3)
                              (\<lambda>t. t\<lparr>embedded_description := e\<rparr>) s3))
                 else drift_phase cs ollama helper off_topic_threshold s1))
      else drift_phase cs ollama helper off_topic_threshold s)"

subsection \<open>The file index and the retrieval of files\<close>

text \<open>
  Strings are sequences of characters with codes below 256. \<^verbatim>\<open>os.path.basename\<close> on
  a POSIX system is what follows the last \<^verbatim>\<open>/\<close>; \<^verbatim>\<open>str.lower\<close> moves the capital
  letters of that range to their small letters; \<^verbatim>\<open>a in b\<close> on strings is
  \<^const>\<open>sublist\<close>.
\<close>

definition basename :: "string \<Rightarrow> string" where
  "basename p = rev (takeWhile (\<lambda>c. c \<noteq> CHR ''/'') (rev p))"

definition lower_char :: "char \<Rightarrow> char" where
  "lower_char c =
     (let n = (of_char c :: nat)
      in if (65 \<le> n \<and> n \<le> 90) \<or> (192 \<le> n \<and> n \<le> 222 \<and> n \<noteq> 215)
         then char_of (n + 32) else c)"

definition lower :: "string \<Rightarrow> string" where
  "lower xs = map lower_char xs"

text \<open>\<^verbatim>\<open>d[k] = v\<close> on a dictionary: a key already present keeps its place.\<close>

fun dict_set :: "'k \<Rightarrow> 'v \<Rightarrow> ('k \<times> 'v) list \<Rightarrow> ('k \<times> 'v) list" where
  "dict_set k v [] = [(k, v)]"
| "dict_set k v ((k', v') # rest) =
     (if k' = k then (k, v) # rest else (k', v') # dict_set k v rest)"

text \<open>\<^verbatim>\<open>d.update(e)\<close>\<close>

definition dict_update :: "('k \<times> 'v) list \<Rightarrow> ('k \<times> 'v) list \<Rightarrow> ('k \<times> 'v) list" where
  "dict_update d e = fold (\<lambda>(k, v). dict_set k v) e d"

text \<open>\<^verbatim>\<open>Topic._index_file(file_path, embedding)\<close>\<close>

definition index_file :: "string \<Rightarrow> real list \<Rightarrow> Topic \<Rightarrow> Topic" where
  "index_file file_path e t =
     t\<lparr>file_embeddings :=
         dict_set file_path
           \<lparr>file_name = basename file_path, full_path = file_path, file_embedding = e\<rparr>
           (file_embeddings t)\<rparr>"

text \<open>\<^verbatim>\<open>HistoryManager.add_file(file_path, content)\<close>\<close>

definition add_file ::
  "(string \<Rightarrow> real list) \<Rightarrow> string \<Rightarrow> string \<Rightarrow> HistoryManager \<Rightarrow> HistoryManager" where
  "add_file ollama file_path text s =
     (let combined_content = ''Path: '' @ file_path @ [CHR 0x0A] @ ''Content: '' @ text;
          (file_embedding, s1) = fetch_embedding ollama combined_content s
      in update_topic (current_topic s1) (index_file file_path file_embedding) s1)"

text \<open>
  \<^verbatim>\<open>extract_file_name_from_query\<close> searches the query for
  \<^verbatim>\<open>([a-zA-Z0-9_\-]+(?:/[a-zA-Z0-9_\-]+)*/[a-zA-Z0-9_\-]+\.[a-zA-Z0-9]+|[a-zA-Z0-9_\-]+\.[a-zA-Z0-9]+)\<close>.
  \<^verbatim>\<open>re.search\<close> takes the leftmost position at which the pattern matches and, there,
  the first alternative that matches. Neither \<^verbatim>\<open>/\<close> nor \<^verbatim>\<open>.\<close> is in a character
  class, so every repetition of a class can only stop at the end of the run of its
  characters: the first alternative is a run, one or more groups of \<^verbatim>\<open>/\<close> and a run,
  then a dot and a run of letters and digits; the second is a run, a dot and a run of
  letters and digits.
\<close>

definition word_char :: "char \<Rightarrow> bool" where
  "word_char c =
     (let n = (of_char c :: nat)
      in (97 \<le> n \<and> n \<le> 122) \<or> (65 \<le> n \<and> n \<le> 90) \<or> (48 \<le> n \<and> n \<le> 57)
         \<or> c = CHR ''_'' \<or> c = CHR ''-'')"

definition alnum_char :: "char \<Rightarrow> bool" where
  "alnum_char c =
     (let n = (of_char c :: nat)
      in (97 \<le> n \<and> n \<le> 122) \<or> (65 \<le> n \<and> n \<le> 90) \<or> (48 \<le> n \<and> n \<le> 57))"

text \<open>The groups \<^verbatim>\<open>/[a-zA-Z0-9_\-]+\<close> at the head of a string, and what follows them.\<close>

function path_groups :: "string \<Rightarrow> string \<times> string" where
  "path_groups [] = ([], [])"
| "path_groups (c # cs) =
     (if c = CHR ''/'' \<and> takeWhile word_char cs \<noteq> [] then
        (let (gs, rest) = path_groups (dropWhile word_char cs)
         in (c # takeWhile word_char cs @ gs, rest))
      else ([], c # cs))"
  by pat_completeness auto
termination
  by (relation "measure length") (auto simp: length_dropWhile_le le_imp_less_Suc)

declare path_groups.simps [simp del]

text \<open>\<^verbatim>\<open>\.[a-zA-Z0-9]+\<close> at the head of a string.\<close>

fun extension :: "string \<Rightarrow> string option" where
  "extension [] = None"
| "extension (c # cs) =
     (if c = CHR ''.'' \<and> takeWhile alnum_char cs \<noteq> [] then Some (c # takeWhile alnum_char cs)
      else None)"

text \<open>The match that starts at the head of a string, if there is one.\<close>

definition match_at :: "string \<Rightarrow> string option" where
  "match_at xs =
     (let seg = takeWhile word_char xs; rest = dropWhile word_char xs
      in if seg = [] then None
         else (let (gs, rest1) = path_groups rest
               in (case (if gs \<noteq> [] then extension rest1 else None) of
                     Some ext \<Rightarrow> Some (seg @ gs @ ext)
                   | None \<Rightarrow>
                       (case extension rest of
                          Some ext \<Rightarrow> Some (seg @ ext)
                        | None \<Rightarrow> None))))"

fun re_search :: "string \<Rightarrow> string option" where
  "re_search [] = None"
| "re_search (c # cs) =
     (case match_at (c # cs) of Some m \<Rightarrow> Some m | None \<Rightarrow> re_search cs)"

definition extract_file_name_from_query :: "string \<Rightarrow> string option" where
  "extract_file_name_from_query query = re_search query"

text \<open>
  Lines 283 to 286 of \<^verbatim>\<open>get_relevant_files\<close>: the pass over the files of the current
  topic that gives the score \<^verbatim>\<open>1.0\<close>.
\<close>

definition name_matches :: "string \<Rightarrow> (string \<times> file_info) list \<Rightarrow> (string \<times> real) list" where
  "name_matches fn files =
     map (\<lambda>(file_path, info). (file_path, 1))
       (filter (\<lambda>(file_path, info). sublist (lower fn) (lower (file_name info))) files)"

text \<open>
  The two loops that score by embedding (lines 290 to 293 and 303 to 306); the library
  call is not guarded, so its exception ends the function.
\<close>

definition similarity_matches ::
  "similarity \<Rightarrow> real list \<Rightarrow> real \<Rightarrow> (string \<times> file_info) list \<Rightarrow> error + (string \<times> real) list" where
  "similarity_matches cs query_embedding similarity_threshold' files =
     (case map_err (\<lambda>(file_path, info).
                      case cs (Vec query_embedding) (Vec (file_embedding info)) of
                        Inl x \<Rightarrow> Inl x | Inr v \<Rightarrow> Inr (file_path, v)) files of
        Inl x \<Rightarrow> Inl x
      | Inr scored \<Rightarrow> Inr (filter (\<lambda>(file_path, v). v \<ge> similarity_threshold') scored))"

text \<open>Step 1 (lines 280 to 293): the scores found in the current topic.\<close>

definition current_topic_scores ::
  "similarity \<Rightarrow> real list \<Rightarrow> real \<Rightarrow> string option \<Rightarrow> (string \<times> file_info) list
   \<Rightarrow> error + (string \<times> real) list" where
  "current_topic_scores cs query_embedding similarity_threshold' fn files =
     (case fn of
        None \<Rightarrow> Inr []
      | Some f \<Rightarrow>
          if f = [] then Inr []
          else (let file_scores = name_matches f files
                in if file_scores = []
                   then similarity_matches cs query_embedding similarity_threshold' files
                   else Inr file_scores))"

text \<open>
  \<^verbatim>\<open>HistoryManager.get_relevant_files(query, top_k=1, similarity_threshold=0.3)\<close>;
  \<open>read_file path\<close> is the content that \<^verbatim>\<open>_read_file\<close> returns, empty when the file
  cannot be read. The sort is stable and descending in the score.
\<close>

definition get_relevant_files ::
  "similarity \<Rightarrow> (string \<Rightarrow> real list) \<Rightarrow> (string \<Rightarrow> string) \<Rightarrow> string \<Rightarrow> int \<Rightarrow> real
   \<Rightarrow> HistoryManager \<Rightarrow> error + (string \<times> string) list option \<times> HistoryManager" where
  "get_relevant_files cs ollama read_file query top_k' similarity_threshold' s =
     (let fn = extract_file_name_from_query query;
          (query_embedding, s1) = fetch_embedding ollama query s
      in (case current_topic_scores cs query_embedding similarity_threshold' fn
                 (file_embeddings (objects s1 (current_topic s1))) of
            Inl x \<Rightarrow> Inl x
          | Inr scores1 \<Rightarrow>
              (case (if scores1 = [] then
                       similarity_matches cs query_embedding similarity_threshold'
                         (fold (\<lambda>r all_file_embeddings.
                                  dict_update all_file_embeddings (file_embeddings (objects s1 r)))
                               (topics s1) [])
                     else Inr scores1) of
                 Inl x \<Rightarrow> Inl x
               | Inr file_scores \<Rightarrow>
                   if file_scores \<noteq> [] then
                     (let selected_file_paths =
                            map fst (slice_to top_k' (sort_key (\<lambda>(file_path, v). - v) file_scores));
                          results = map (\<lambda>fp. (fp, read_file fp)) selected_file_paths
                      in Inr (Some (filter (\<lambda>(fp, c). c \<noteq> []) results), s1))
                   else Inr (None, s1))))"

subsection \<open>Example inputs\<close>

text \<open>
  An embedding service for the examples: a text that starts with \<^verbatim>\<open>a\<close> lies on the
  first axis, one that starts with \<^verbatim>\<open>b\<close> on the second, and the service yields
  nothing for any other text. Two summarizers: one that always raises, one that always
  answers with a fixed name and description.
\<close>

definition msg :: "string \<Rightarrow> message" where
  "msg c = \<lparr>role = ''user'', content = c\<rparr>"

definition ollama_ex :: "string \<Rightarrow> real list" where
  "ollama_ex text =
     (case text of [] \<Rightarrow> []
      | c # _ \<Rightarrow> if c = CHR ''a'' then [1, 0] else if c = CHR ''b'' then [0, 1] else [])"

definition failing_helper :: summarizer where
  "failing_helper k h = Raised"

definition helper_B :: summarizer where
  "helper_B k h = Matches [''B again'', ''b things'']"

text \<open>A topic named A whose last three messages are about something else.\<close>

definition topic_A :: Topic where
  "topic_A =
     \<lparr>name = ''A'', description = ''a things'', embedded_description = [1, 0],
      history = map msg [''a1'', ''a2'', ''a3'', ''a4'', ''a5'', ''b1'', ''b2'', ''b3''],
      history_embeddings = map (\<lambda>c. Vec (ollama_ex c))
                             [''a1'', ''a2'', ''a3'', ''a4'', ''a5'', ''b1'', ''b2'', ''b3''],
      file_embeddings = []\<rparr>"

definition topic_B :: Topic where
  "topic_B =
     \<lparr>name = ''B'', description = ''b things'', embedded_description = [0, 1],
      history = [msg ''b0''], history_embeddings = [Vec [0, 1]], file_embeddings = []\<rparr>"

text \<open>The first topic of a manager, named A, before any other topic exists.\<close>

definition drifting :: HistoryManager where
  "drifting =
     \<lparr>top_k = 2, similarity_threshold = 0.5, topics = [], current_topic = 0,
      embedding_cache = Map.empty, objects = (\<lambda>r. if r = 0 then topic_A else new_Topic [] []),
      next_ref = 1, helper_calls = 0\<rparr>"

text \<open>Topic B was the first topic and is stored; topic A was split off it and is current.\<close>

definition drifting_back :: HistoryManager where
  "drifting_back =
     \<lparr>top_k = 2, similarity_threshold = 0.5, topics = [0], current_topic = 1,
      embedding_cache = Map.empty,
      objects = (\<lambda>r. if r = 0 then topic_B else if r = 1 then topic_A else new_Topic [] []),
      next_ref = 2, helper_calls = 0\<rparr>"

text \<open>Two named topics without messages: A is stored, B is current.\<close>

definition two_topics :: HistoryManager where
  "two_topics =
     \<lparr>top_k = 2, similarity_threshold = 0.5, topics = [0], current_topic = 1,
      embedding_cache = Map.empty,
      objects = (\<lambda>r. if r = 0 then new_Topic ''A'' ''a things'' else new_Topic ''B'' ''b things''),
      next_ref = 2, helper_calls = 0\<rparr>"

text \<open>
  The first topic, still unnamed, with five and with eight messages that were routed
  without an embedding.
\<close>

definition unnamed_five :: HistoryManager where
  "unnamed_five =
     \<lparr>top_k = 2, similarity_threshold = 0.5, topics = [], current_topic = 0,
      embedding_cache = Map.empty,
      objects = (\<lambda>r. (new_Topic [] [])
                   \<lparr>history := map msg [''a1'', ''a2'', ''a3'', ''a4'', ''a5''],
                    history_embeddings := replicate 5 PyNone\<rparr>),
      next_ref = 1, helper_calls = 0\<rparr>"

definition unnamed_eight :: HistoryManager where
  "unnamed_eight =
     \<lparr>top_k = 2, similarity_threshold = 0.5, topics = [], current_topic = 0,
      embedding_cache = Map.empty,
      objects = (\<lambda>r. (new_Topic [] [])
                   \<lparr>history := map msg [''a1'', ''a2'', ''a3'', ''a4'', ''a5'', ''a6'', ''a7'', ''a8''],
                    history_embeddings := replicate 8 PyNone\<rparr>),
      next_ref = 1, helper_calls = 0\<rparr>"

text \<open>Topic A with four last messages for which the service yields nothing.\<close>

definition no_embeddings :: HistoryManager where
  "no_embeddings =
     \<lparr>top_k = 2, similarity_threshold = 0.5, topics = [], current_topic = 0,
      embedding_cache = Map.empty,
      objects = (\<lambda>r. topic_A\<lparr>history := map msg [''a1'', ''a2'', ''a3'', ''a4'', ''x5'', ''x6'', ''x7'', ''x8'']\<rparr>),
      next_ref = 1, helper_calls = 0\<rparr>"

text \<open>
  A stored topic whose description embedding makes an angle of sixty degrees with the
  first axis: the similarity is the threshold itself.
\<close>

definition at_threshold :: HistoryManager where
  "at_threshold =
     \<lparr>top_k = 2, similarity_threshold = 0.5, topics = [0], current_topic = 1,
      embedding_cache = Map.empty,
      objects = (\<lambda>r. if r = 0
                      then (new_Topic ''Q'' ''quarters'')\<lparr>embedded_description := [1, 1, 1, 1]\<rparr>
                      else new_Topic [] []),
      next_ref = 2, helper_calls = 0\<rparr>"

section \<open>Properties\<close>

lemmas run_defs =
  analyze_history_def drift_phase_def split_segment_def generate_topic_info_from_history_def
  retry_loop.simps fetch_embedding_def match_topic_def switch_topic_def update_topic_def
  Topic_add_message_def new_Topic_def slice_from_def slice_to_def off_topic_frequency_def
  slice_size_def drift_declared_def off_topic_start_def dot_def row_norm_def unnamed_def
  py_isspace_def compute_similarity_def Let_def

lemmas example_defs =
  msg_def ollama_ex_def failing_helper_def helper_B_def topic_A_def topic_B_def

subsection \<open>Routing without an embedding\<close>

text \<open>
  C1. A call of \<^verbatim>\<open>add_message\<close> with a role and a message and no embedding should
  fetch an embedding for the message before matching and store the message with it. The
  test \<^verbatim>\<open>if embedding:\<close> is the wrong way round: on a new manager the call fetches
  nothing, leaves the cache as it was and stores the message with \<^verbatim>\<open>None\<close>; with a
  stored topic that has a description embedding, the matching raises \<^verbatim>\<open>TypeError\<close>
  on \<^verbatim>\<open>len(None)\<close>.
\<close>

theorem add_message_without_embedding:
  "add_message cs ollama r m PyNone (init_manager k thr)
     = Inr (update_topic 0 (Topic_add_message r m PyNone) (init_manager k thr))
   \<and> add_message cs ollama r m PyNone drifting_back = Inl TypeError"
  by (simp add: add_message_def match_topic_def init_manager_def compute_similarity_def
      drifting_back_def topic_B_def topic_A_def)

subsection \<open>Messages and their embeddings\<close>

lemma Topic_add_message_lengths:
  "length (history t) = length (history_embeddings t)
   \<Longrightarrow> length (history (Topic_add_message r m e t))
        = length (history_embeddings (Topic_add_message r m e t))"
  by (simp add: Topic_add_message_def)

text \<open>
  C2. After every operation that changes a topic, \<^verbatim>\<open>history\<close> and
  \<^verbatim>\<open>history_embeddings\<close> should have the same length. \<^verbatim>\<open>Topic.add_message\<close> appends
  to both, but the truncation at the end of the drift analysis assigns
  \<^verbatim>\<open>history[:off_topic_start_index]\<close> to \<^verbatim>\<open>history\<close> alone. On topic A, with five
  messages on the topic and three off it and no other topic to match, the analysis
  creates a new topic, stores A and leaves it with five messages and eight embeddings.
\<close>

theorem truncation_keeps_embeddings:
  "\<exists>s'. analyze_history cosine_similarity ollama_ex helper_B 0.7 drifting = Inr s'
      \<and> topics s' = [0] \<and> current_topic s' = 1
      \<and> map content (history (objects s' 0)) = [''a1'', ''a2'', ''a3'', ''a4'', ''a5'']
      \<and> length (history (objects s' 0)) = 5
      \<and> length (history_embeddings (objects s' 0)) = 8"
  by (simp add: run_defs example_defs drifting_def)

subsection \<open>Truncation after a drift\<close>

text \<open>
  C3. Once drift is declared and a name and description are generated, the original
  topic should lose the migrated tail in both branches. The truncation stands inside
  the \<^verbatim>\<open>else\<close> of the branch that creates a topic, so when an existing topic matches
  nothing is removed: with topic B stored and matching, the three messages are appended
  to B, B becomes current, and A keeps all eight messages.
\<close>

theorem matched_branch_keeps_tail:
  "\<exists>s'. analyze_history cosine_similarity ollama_ex helper_B 0.7 drifting_back = Inr s'
      \<and> topics s' = [0, 1] \<and> current_topic s' = 0
      \<and> map content (history (objects s' 0)) = [''b0'', ''b1'', ''b2'', ''b3'']
      \<and> map content (history (objects s' 1))
           = [''a1'', ''a2'', ''a3'', ''a4'', ''a5'', ''b1'', ''b2'', ''b3'']"
  by (simp add: run_defs example_defs drifting_back_def)

subsection \<open>The current topic and the stored topics\<close>

text \<open>
  C4, as stated: after \<^verbatim>\<open>switch_topic(target)\<close> with a stored target, the target is
  current and no longer among the stored topics. This fails: nothing is ever removed
  from \<^verbatim>\<open>topics\<close>. Switching to the stored topic A makes it current and leaves it
  stored.
\<close>

theorem switch_topic_leaves_target_stored:
  "0 \<in> set (topics two_topics) \<and> current_topic (switch_topic 0 two_topics) = 0
   \<and> 0 \<in> set (topics (switch_topic 0 two_topics))"
  by (simp add: two_topics_def switch_topic_def new_Topic_def)

text \<open>
  C4, amended. There is one current topic; after construction it is not among the
  stored topics. \<^verbatim>\<open>switch_topic(target)\<close> removes no stored topic: when the names
  differ the target becomes current and the stored topics are the same or have the
  previous current topic appended, so a stored target stays stored; when the names are
  equal nothing changes.
\<close>

theorem switch_topic_keeps_stored:
  "current_topic (init_manager k thr) \<notin> set (topics (init_manager k thr))
   \<and> set (topics s) \<subseteq> set (topics (switch_topic t s))
   \<and> (name (objects s t) \<noteq> name (objects s (current_topic s))
        \<longrightarrow> current_topic (switch_topic t s) = t
            \<and> (topics (switch_topic t s) = topics s
                \<or> topics (switch_topic t s) = topics s @ [current_topic s]))
   \<and> (name (objects s t) = name (objects s (current_topic s)) \<longrightarrow> switch_topic t s = s)"
  by (auto simp: switch_topic_def init_manager_def Let_def)

text \<open>The amended C4 at the two named topics, for both cases of the names.\<close>

theorem switch_topic_keeps_stored_witness:
  "name (objects two_topics 0) \<noteq> name (objects two_topics (current_topic two_topics))
   \<and> current_topic (switch_topic 0 two_topics) = 0
   \<and> set (topics two_topics) \<subseteq> set (topics (switch_topic 0 two_topics))
   \<and> name (objects two_topics 1) = name (objects two_topics (current_topic two_topics))
   \<and> switch_topic 1 two_topics = two_topics"
proof -
  have h0: "name (objects two_topics 0) \<noteq> name (objects two_topics (current_topic two_topics))"
    by (simp add: two_topics_def new_Topic_def)
  have h1: "name (objects two_topics 1) = name (objects two_topics (current_topic two_topics))"
    by (simp add: two_topics_def new_Topic_def)
  show ?thesis
    using h0 h1 switch_topic_keeps_stored [of 2 "0.5" two_topics 0]
      switch_topic_keeps_stored [of 2 "0.5" two_topics 1]
    by simp
qed

subsection \<open>A naming attempt that fails\<close>

lemma retry_loop_None:
  "retry_loop helper h m a k = (None, k') \<Longrightarrow> k' = k + (m - a)"
proof (induction helper h m a k rule: retry_loop.induct)
  case (1 helper h max_retries attempt k)
  show ?case
  proof (cases "attempt < max_retries")
    case True
    show ?thesis
    proof (cases "attempt_result (helper k h)")
      case None
      then have "retry_loop helper h max_retries (Suc attempt) (Suc k) = (None, k')"
        using "1.prems" True by (simp add: retry_loop.simps [of helper h max_retries attempt k])
      from "1.IH" [OF True None this] True show ?thesis by simp
    next
      case (Some a)
      then show ?thesis using "1.prems" True
        by (simp add: retry_loop.simps [of helper h max_retries attempt k])
    qed
  next
    case False
    then show ?thesis using "1.prems"
      by (simp add: retry_loop.simps [of helper h max_retries attempt k])
  qed
qed

lemma generate_None:
  "generate_topic_info_from_history helper h m s = (None, s1)
   \<Longrightarrow> s1 = s\<lparr>helper_calls := helper_calls s + m\<rparr>"
  by (auto simp: generate_topic_info_from_history_def split: prod.splits dest!: retry_loop_None)

text \<open>
  C5, as stated: when the naming of an unnamed topic exhausts its retries, the analysis
  stops there and the drift phase is not entered. This fails: only the successful
  branch returns. With eight messages the three attempts fail and the code goes on to
  the drift phase, where the similarity against the empty description embedding
  raises.
\<close>

theorem naming_failure_enters_drift_phase:
  "length (history (objects unnamed_eight (current_topic unnamed_eight))) > 4
   \<and> unnamed (name (objects unnamed_eight (current_topic unnamed_eight)))
   \<and> generate_topic_info_from_history failing_helper
        (history (objects unnamed_eight (current_topic unnamed_eight))) 3 unnamed_eight
       = (None, unnamed_eight\<lparr>helper_calls := 3\<rparr>)
   \<and> analyze_history cosine_similarity ollama_ex failing_helper 0.7 unnamed_eight
       \<noteq> Inr (unnamed_eight\<lparr>helper_calls := 3\<rparr>)
   \<and> analyze_history cosine_similarity ollama_ex failing_helper 0.7 unnamed_eight
       = Inl ValueError"
  by (simp add: run_defs example_defs unnamed_eight_def)

text \<open>
  C5, amended. When the naming of an unnamed topic with more than four messages
  exhausts its three attempts, the topic is left as it was (only the count of requests
  changes) and the analysis goes on to the test of the drift phase, which does not look
  at the name: the drift phase runs when the length of the history is a multiple of
  four, and otherwise the analysis ends there.
\<close>

theorem naming_failure_goes_on:
  assumes "length (history (objects s (current_topic s))) > 4"
    and "unnamed (name (objects s (current_topic s)))"
    and "generate_topic_info_from_history helper (history (objects s (current_topic s))) 3 s
           = (None, s1)"
  shows "s1 = s\<lparr>helper_calls := helper_calls s + 3\<rparr>
       \<and> analyze_history cs ollama helper thr s
           = (if int (length (history (objects s (current_topic s)))) mod 4 = 0
              then drift_phase cs ollama helper thr s1 else Inr s1)"
proof -
  have s1: "s1 = s\<lparr>helper_calls := helper_calls s + 3\<rparr>" using assms(3) by (rule generate_None)
  have a: "analyze_history cs ollama helper thr s = drift_phase cs ollama helper thr s1"
    using assms by (simp add: analyze_history_def)
  have "drift_phase cs ollama helper thr s1 = Inr s1"
    if "int (length (history (objects s (current_topic s)))) mod 4 \<noteq> 0"
    using that s1 by (simp add: drift_phase_def off_topic_frequency_def)
  then show ?thesis using s1 a by simp
qed

text \<open>The amended C5 with five messages (the analysis ends) and with eight (it goes on).\<close>

theorem naming_failure_goes_on_witness:
  "analyze_history cosine_similarity ollama_ex failing_helper 0.7 unnamed_five
     = Inr (unnamed_five\<lparr>helper_calls := 3\<rparr>)
   \<and> analyze_history cosine_similarity ollama_ex failing_helper 0.7 unnamed_eight
     = drift_phase cosine_similarity ollama_ex failing_helper 0.7 (unnamed_eight\<lparr>helper_calls := 3\<rparr>)"
proof -
  have a5: "length (history (objects unnamed_five (current_topic unnamed_five))) > 4"
    and b5: "unnamed (name (objects unnamed_five (current_topic unnamed_five)))"
    and c5: "generate_topic_info_from_history failing_helper
               (history (objects unnamed_five (current_topic unnamed_five))) 3 unnamed_five
             = (None, unnamed_five\<lparr>helper_calls := 3\<rparr>)"
    by (simp_all add: run_defs example_defs unnamed_five_def)
  have a8: "length (history (objects unnamed_eight (current_topic unnamed_eight))) > 4"
    and b8: "unnamed (name (objects unnamed_eight (current_topic unnamed_eight)))"
    and c8: "generate_topic_info_from_history failing_helper
               (history (objects unnamed_eight (current_topic unnamed_eight))) 3 unnamed_eight
             = (None, unnamed_eight\<lparr>helper_calls := 3\<rparr>)"
    by (simp_all add: run_defs example_defs unnamed_eight_def)
  have l5: "length (history (objects unnamed_five (current_topic unnamed_five))) = 5"
    by (simp add: unnamed_five_def new_Topic_def)
  have l8: "length (history (objects unnamed_eight (current_topic unnamed_eight))) = 8"
    by (simp add: unnamed_eight_def new_Topic_def)
  show ?thesis
    using naming_failure_goes_on [OF a5 b5 c5, of cosine_similarity ollama_ex "0.7"]
      naming_failure_goes_on [OF a8 b8 c8, of cosine_similarity ollama_ex "0.7"] l5 l8
    by simp
qed

subsection \<open>Matching\<close>

lemma map_err_Inr:
  "map_err f xs = Inr ys \<Longrightarrow> list_all2 (\<lambda>x y. f x = Inr y) xs ys"
  by (induction xs arbitrary: ys) (auto split: sum.splits)

lemma map_err_length: "map_err f xs = Inr ys \<Longrightarrow> length ys = length xs"
  by (drule map_err_Inr) (simp add: list_all2_lengthD)

lemma select_best_inv:
  "select_best thr (bt, bs) results = (rt, rs) \<Longrightarrow>
     bs \<le> rs \<and> (\<forall>(y, r)\<in>set results. thr \<le> y \<longrightarrow> y \<le> rs)
     \<and> ((rt, rs) = (bt, bs) \<or> ((\<exists>t. rt = Some t \<and> (rs, t) \<in> set results) \<and> thr \<le> rs \<and> bs < rs))"
proof (induction results arbitrary: bt bs)
  case Nil
  then show ?case by simp
next
  case (Cons a results)
  obtain y r where a: "a = (y, r)" by (cases a)
  show ?case
  proof (cases "y > bs \<and> y \<ge> thr")
    case True
    then have "select_best thr (Some r, y) results = (rt, rs)" using Cons.prems a by simp
    from Cons.IH [OF this] True a show ?thesis by auto
  next
    case False
    then have "select_best thr (bt, bs) results = (rt, rs)" using Cons.prems a by auto
    from Cons.IH [OF this] False a show ?thesis by auto
  qed
qed

lemma scored_results:
  assumes "map_err (\<lambda>r. case f r of Inl x \<Rightarrow> Inl x | Inr v \<Rightarrow> Inr (v, r)) cands = Inr results"
  shows "(\<forall>(y, r)\<in>set results. r \<in> set cands \<and> f r = Inr y)
       \<and> (\<forall>r\<in>set cands. \<exists>y. f r = Inr y \<and> (y, r) \<in> set results)"
  using assms
proof (induction cands arbitrary: results)
  case Nil
  then show ?case by simp
next
  case (Cons c cands)
  then show ?case by (auto split: sum.splits)
qed

text \<open>
  C6, as stated: a topic is returned only if its score is strictly above the threshold,
  and a score equal to the threshold gives none. This fails: the test is
  \<^verbatim>\<open>similarity >= self.similarity_threshold\<close>. The stored topic scores exactly the
  threshold 0.5 and is returned.
\<close>

theorem match_topic_at_threshold:
  "compute_similarity cosine_similarity (Vec [1, 0, 0, 0]) (objects at_threshold 0)
     = Inr (similarity_threshold at_threshold)
   \<and> match_topic cosine_similarity (Vec [1, 0, 0, 0]) (Some (current_topic at_threshold))
       at_threshold = Inr (Some 0)"
  by (simp add: run_defs at_threshold_def)

text \<open>
  C6, amended. When \<^verbatim>\<open>_match_topic\<close> returns, a returned topic is a stored topic
  other than the excluded one whose score is at or above the threshold and above zero,
  and no other such topic scores higher; it returns none exactly when no stored topic
  other than the excluded one has a score that is at or above the threshold and above
  zero.
\<close>

theorem match_topic_at_or_above:
  assumes "match_topic cs e ex s = Inr res"
  shows "(\<forall>t. res = Some t \<longrightarrow>
            t \<in> set (topics s) \<and> Some t \<noteq> ex
            \<and> (\<exists>x. compute_similarity cs e (objects s t) = Inr x
                   \<and> similarity_threshold s \<le> x \<and> 0 < x
                   \<and> (\<forall>r\<in>set (topics s). Some r \<noteq> ex \<longrightarrow>
                         (\<exists>y. compute_similarity cs e (objects s r) = Inr y \<and> y \<le> x))))
       \<and> (res = None \<longleftrightarrow>
            (\<forall>r\<in>set (topics s). Some r \<noteq> ex \<longrightarrow>
               (\<exists>y. compute_similarity cs e (objects s r) = Inr y
                    \<and> \<not> (similarity_threshold s \<le> y \<and> 0 < y))))"
proof (cases "topics s = []")
  case True
  then show ?thesis using assms by (simp add: match_topic_def)
next
  case False
  let ?cands = "filter (\<lambda>r. Some r \<noteq> ex) (topics s)"
  let ?f = "\<lambda>r. compute_similarity cs e (objects s r)"
  from assms False obtain results where
    m: "map_err (\<lambda>r. case ?f r of Inl x \<Rightarrow> Inl x | Inr v \<Rightarrow> Inr (v, r)) ?cands = Inr results"
    and r: "res = fst (select_best (similarity_threshold s) (None, 0) results)"
    by (auto simp: match_topic_def split: sum.splits)
  obtain rt rs where sb: "select_best (similarity_threshold s) (None, 0) results = (rt, rs)"
    by (cases "select_best (similarity_threshold s) (None, 0) results")
  note inv = select_best_inv [OF sb]
  note sc = scored_results [OF m]
  have res: "res = rt" using r sb by simp
  have cand: "r \<in> set ?cands \<longleftrightarrow> r \<in> set (topics s) \<and> Some r \<noteq> ex" for r by simp
  have some: "t \<in> set (topics s) \<and> Some t \<noteq> ex
            \<and> (\<exists>x. ?f t = Inr x \<and> similarity_threshold s \<le> x \<and> 0 < x
                   \<and> (\<forall>r\<in>set (topics s). Some r \<noteq> ex \<longrightarrow> (\<exists>y. ?f r = Inr y \<and> y \<le> x)))"
    if "res = Some t" for t
  proof -
    from that res inv have in_res: "(rs, t) \<in> set results" and thr: "similarity_threshold s \<le> rs"
      and pos: "0 < rs" by auto
    from sc in_res have t: "t \<in> set ?cands" and ft: "?f t = Inr rs" by auto
    have "\<exists>y. ?f r = Inr y \<and> y \<le> rs" if "r \<in> set (topics s)" "Some r \<noteq> ex" for r
    proof -
      from that sc obtain y where y: "?f r = Inr y" "(y, r) \<in> set results" by fastforce
      show ?thesis
      proof (cases "similarity_threshold s \<le> y")
        case True
        then show ?thesis using inv y by auto
      next
        case False
        then show ?thesis using thr y by auto
      qed
    qed
    then show ?thesis using t ft thr pos by auto
  qed
  have none: "res = None \<longleftrightarrow>
            (\<forall>r\<in>set (topics s). Some r \<noteq> ex \<longrightarrow>
               (\<exists>y. ?f r = Inr y \<and> \<not> (similarity_threshold s \<le> y \<and> 0 < y)))"
  proof
    assume "res = None"
    then have rs0: "rs = 0" using res inv by auto
    show "\<forall>r\<in>set (topics s). Some r \<noteq> ex \<longrightarrow>
               (\<exists>y. ?f r = Inr y \<and> \<not> (similarity_threshold s \<le> y \<and> 0 < y))"
    proof (intro ballI impI)
      fix r assume "r \<in> set (topics s)" "Some r \<noteq> ex"
      with sc obtain y where y: "?f r = Inr y" "(y, r) \<in> set results" by fastforce
      then have "similarity_threshold s \<le> y \<longrightarrow> y \<le> 0" using inv rs0 by auto
      then show "\<exists>y. ?f r = Inr y \<and> \<not> (similarity_threshold s \<le> y \<and> 0 < y)" using y by auto
    qed
  next
    assume a: "\<forall>r\<in>set (topics s). Some r \<noteq> ex \<longrightarrow>
               (\<exists>y. ?f r = Inr y \<and> \<not> (similarity_threshold s \<le> y \<and> 0 < y))"
    show "res = None"
    proof (rule ccontr)
      assume "res \<noteq> None"
      then obtain t where t: "res = Some t" by auto
      from some [OF t] a show False by fastforce
    qed
  qed
  show ?thesis using some none by blast
qed

text \<open>The amended C6 at a stored topic that the query matches fully.\<close>

theorem match_topic_at_or_above_witness:
  "match_topic cosine_similarity (Vec [1, 1, 1, 1]) (Some 1) at_threshold = Inr (Some 0)
   \<and> 0 \<in> set (topics at_threshold)
   \<and> (\<exists>x. compute_similarity cosine_similarity (Vec [1, 1, 1, 1]) (objects at_threshold 0) = Inr x
          \<and> similarity_threshold at_threshold \<le> x \<and> 0 < x)"
proof -
  have h: "match_topic cosine_similarity (Vec [1, 1, 1, 1]) (Some 1) at_threshold = Inr (Some 0)"
    by (simp add: run_defs at_threshold_def)
  from match_topic_at_or_above [OF h] show ?thesis using h by blast
qed

subsection \<open>Declaring a drift\<close>

lemma drift_declared_iff:
  "drift_declared thr sims \<longleftrightarrow> length sims < 2 * length (filter (\<lambda>x. x < thr) sims)"
  by (auto simp: drift_declared_def field_simps)

lemma start_loop_eq:
  "start_loop thr n d i sims =
     (if \<exists>x\<in>set sims. x < thr
      then n - slice_size + i + int (length (takeWhile (\<lambda>x. \<not> x < thr) sims))
      else d)"
  by (induction sims arbitrary: i) auto

lemma off_topic_start_eq:
  "off_topic_start thr n sims =
     (if \<exists>x\<in>set sims. x < thr
      then n - slice_size + int (length (takeWhile (\<lambda>x. \<not> x < thr) sims))
      else n - slice_size)"
  by (simp add: off_topic_start_def start_loop_eq)

lemma drift_examples:
  "\<not> drift_declared 0.7 [0.9, 0.9, 0.2, 0.1]" "drift_declared 0.7 [0.9, 0.2, 0.2, 0.1]"
  "off_topic_start 0.7 4 [0.9, 0.2, 0.2, 0.1] = 1"
  by (simp_all add: drift_declared_def off_topic_start_def slice_size_def)

lemma fetch_embedding_objects:
  "fetch_embedding ollama t s = (e, s1) \<Longrightarrow> objects s1 = objects s \<and> current_topic s1 = current_topic s"
  by (auto simp: fetch_embedding_def Let_def split: option.splits if_splits)

lemma fetch_embeddings_objects:
  "fetch_embeddings ollama ts s = (es, s1)
   \<Longrightarrow> objects s1 = objects s \<and> current_topic s1 = current_topic s \<and> length es = length ts"
proof (induction ts arbitrary: s es s1)
  case Nil
  then show ?case by simp
next
  case (Cons t ts)
  obtain e s' where f: "fetch_embedding ollama t s = (e, s')" by (cases "fetch_embedding ollama t s")
  obtain es' s'' where g: "fetch_embeddings ollama ts s' = (es', s'')"
    by (cases "fetch_embeddings ollama ts s'")
  from Cons.prems f g have "es = e # es'" "s1 = s''" by simp_all
  then show ?case using Cons.IH [OF g] fetch_embedding_objects [OF f] by simp
qed

text \<open>
  C7. In the drift phase (the history has \<open>n\<close> messages, \<open>n\<close> a positive multiple of
  four) let \<open>sims\<close> be the similarities of the last four messages against the
  description embedding. There are four of them; drift is declared exactly when more
  than two are below the threshold; the start index is \<open>n - 4\<close> plus the position of
  the first one below the threshold, and \<open>n - 4\<close> when none is; and the analysis goes
  on with the segment from that index when drift is declared and ends otherwise.
\<close>

theorem drift_rule:
  assumes "n = int (length (history (objects s (current_topic s))))" and "4 \<le> n" and "n mod 4 = 0"
    and "fetch_embeddings ollama
           (map content (slice_from (- 4) (history (objects s (current_topic s))))) s = (embs, s1)"
    and "map_err (\<lambda>msg_emb. cs (Vec msg_emb)
                    (Vec (embedded_description (objects s (current_topic s))))) embs = Inr sims"
  shows "length sims = 4
       \<and> (drift_declared thr sims \<longleftrightarrow> 2 < length (filter (\<lambda>x. x < thr) sims))
       \<and> off_topic_start thr n sims
           = (if \<exists>x\<in>set sims. x < thr
              then n - 4 + int (length (takeWhile (\<lambda>x. \<not> x < thr) sims)) else n - 4)
       \<and> drift_phase cs ollama helper thr s
           = (if 2 < length (filter (\<lambda>x. x < thr) sims)
              then split_segment cs ollama helper (name (objects s (current_topic s)))
                     (n - 4 + int (length (takeWhile (\<lambda>x. \<not> x < thr) sims))) s1
              else Inr s1)"
proof -
  have len_slice: "length (slice_from (- 4) (history (objects s (current_topic s)))) = 4"
    using assms(1,2) by (simp add: slice_from_def)
  note f = fetch_embeddings_objects [OF assms(4)]
  have len: "length sims = 4" using map_err_length [OF assms(5)] f len_slice by simp
  have decl: "drift_declared thr sims \<longleftrightarrow> 2 < length (filter (\<lambda>x. x < thr) sims)"
    using len by (auto simp: drift_declared_iff)
  have start: "off_topic_start thr n sims
           = (if \<exists>x\<in>set sims. x < thr
              then n - 4 + int (length (takeWhile (\<lambda>x. \<not> x < thr) sims)) else n - 4)"
    by (simp add: off_topic_start_eq slice_size_def)
  have ex: "\<exists>x\<in>set sims. x < thr" if "2 < length (filter (\<lambda>x. x < thr) sims)"
  proof -
    from that have "filter (\<lambda>x. x < thr) sims \<noteq> []" by auto
    then show ?thesis by (simp add: filter_empty_conv)
  qed
  have "drift_phase cs ollama helper thr s
           = (if drift_declared thr sims
              then split_segment cs ollama helper (name (objects s (current_topic s)))
                     (off_topic_start thr n sims) s1
              else Inr s1)"
    using assms f by (simp add: drift_phase_def off_topic_frequency_def slice_size_def)
  then show ?thesis using len decl start ex by auto
qed

text \<open>
  C7 on topic A: the similarities are 1, 0, 0, 0, drift is declared and the segment
  starts at index 5.
\<close>

theorem drift_rule_witness:
  "map_err (\<lambda>msg_emb. cosine_similarity (Vec msg_emb)
              (Vec (embedded_description (objects drifting (current_topic drifting)))))
       (fst (fetch_embeddings ollama_ex [''a5'', ''b1'', ''b2'', ''b3''] drifting))
     = Inr [1, 0, 0, 0]
   \<and> drift_declared 0.7 [1, 0, 0, 0]
   \<and> off_topic_start 0.7 8 [1, 0, 0, 0] = 5
   \<and> drift_phase cosine_similarity ollama_ex helper_B 0.7 drifting
       = split_segment cosine_similarity ollama_ex helper_B ''A'' 5
           (snd (fetch_embeddings ollama_ex [''a5'', ''b1'', ''b2'', ''b3''] drifting))"
proof -
  have n: "(8::int) = int (length (history (objects drifting (current_topic drifting))))"
    by (simp add: drifting_def topic_A_def)
  have f: "fetch_embeddings ollama_ex
             (map content (slice_from (- 4) (history (objects drifting (current_topic drifting)))))
             drifting
           = (fst (fetch_embeddings ollama_ex [''a5'', ''b1'', ''b2'', ''b3''] drifting),
              snd (fetch_embeddings ollama_ex [''a5'', ''b1'', ''b2'', ''b3''] drifting))"
    by (simp add: drifting_def topic_A_def msg_def slice_from_def)
  have m: "map_err (\<lambda>msg_emb. cosine_similarity (Vec msg_emb)
                      (Vec (embedded_description (objects drifting (current_topic drifting)))))
             (fst (fetch_embeddings ollama_ex [''a5'', ''b1'', ''b2'', ''b3''] drifting))
           = Inr [1, 0, 0, 0]"
    by (simp add: run_defs example_defs drifting_def)
  have nm: "name (objects drifting (current_topic drifting)) = ''A''"
    by (simp add: drifting_def topic_A_def)
  have h2: "(4::int) \<le> 8" and h3: "(8::int) mod 4 = 0" by simp_all
  show ?thesis
    using m nm
      drift_rule [where n = 8 and s = drifting and ollama = ollama_ex
          and cs = cosine_similarity and sims = "[1, 0, 0, 0]" and thr = "0.7"
          and helper = helper_B, OF n h2 h3 f m]
    by simp
qed

subsection \<open>Empty vectors\<close>

lemma compute_similarity_empty:
  "compute_similarity cs (Vec []) t = Inr 0"
  "embedded_description t = [] \<Longrightarrow> compute_similarity cs e t = Inr 0"
  by (simp_all add: compute_similarity_def)

text \<open>
  C8. With an empty vector every similarity computation should give 0.0 and never
  raise. The matching guards the call to the library (the lemma above), but the best
  context lookup and the scoring of the drift phase pass the vectors to
  \<^verbatim>\<open>cosine_similarity\<close> as they are, and the library rejects a row with no feature:
  the lookup with an empty query raises, and so does the drift phase on topic A when
  the service yields nothing for the last four messages.
\<close>

theorem empty_vector_raises:
  "get_relevant_context cosine_similarity (Vec []) topic_B = Inl ValueError
   \<and> fst (fetch_embedding ollama_ex ''x5'' no_embeddings) = []
   \<and> analyze_history cosine_similarity ollama_ex failing_helper 0.7 no_embeddings
       = Inl ValueError"
  by (simp add: run_defs example_defs no_embeddings_def get_relevant_context_def)

subsection \<open>A query that names a file with its directories\<close>

lemma lower_char_slash: "lower_char c = CHR ''/'' \<longleftrightarrow> c = CHR ''/''"
proof -
  have a: "of_char (CHR ''/'') = (47::nat)" by simp
  show ?thesis
  proof (cases "(65 \<le> (of_char c :: nat) \<and> (of_char c :: nat) \<le> 90)
                \<or> (192 \<le> (of_char c :: nat) \<and> (of_char c :: nat) \<le> 222 \<and> (of_char c :: nat) \<noteq> 215)")
    case True
    have "(of_char c + 32 :: nat) < 256" using True by auto
    then have n: "(of_char (char_of (of_char c + 32 :: nat)) :: nat) = of_char c + 32"
      by (simp add: of_char_of)
    have "char_of (of_char c + 32 :: nat) \<noteq> CHR ''/''"
    proof
      assume "char_of (of_char c + 32 :: nat) = CHR ''/''"
      then have "(of_char (char_of (of_char c + 32 :: nat)) :: nat) = of_char (CHR ''/'')"
        by (rule arg_cong)
      then have "(of_char c + 32 :: nat) = 47" using n a by simp
      then show False using True by arith
    qed
    moreover have "c \<noteq> CHR ''/''" using True a by auto
    moreover have "lower_char c = char_of (of_char c + 32 :: nat)"
      unfolding lower_char_def Let_def using True by (rule if_P)
    ultimately show ?thesis by simp
  next
    case False
    then have "lower_char c = c"
      unfolding lower_char_def Let_def by (rule if_not_P)
    then show ?thesis by simp
  qed
qed

lemma slash_in_lower: "CHR ''/'' \<in> set (lower xs) \<longleftrightarrow> CHR ''/'' \<in> set xs"
proof -
  have "CHR ''/'' \<in> lower_char ` set xs \<longleftrightarrow> (\<exists>x\<in>set xs. lower_char x = CHR ''/'')"
    by (metis image_iff)
  then show ?thesis by (simp add: lower_def lower_char_slash)
qed

lemma basename_no_slash: "CHR ''/'' \<notin> set (basename p)"
  by (auto simp: basename_def dest: set_takeWhileD)

lemma sublist_set: "sublist a b \<Longrightarrow> set a \<subseteq> set b"
  by (auto simp: sublist_def)

lemma dict_set_names:
  "list_all (\<lambda>(p, info). CHR ''/'' \<notin> set (file_name info)) files
   \<Longrightarrow> CHR ''/'' \<notin> set (file_name v)
   \<Longrightarrow> list_all (\<lambda>(p, info). CHR ''/'' \<notin> set (file_name info)) (dict_set k v files)"
  by (induction files) auto

lemma index_file_names:
  "list_all (\<lambda>(p, info). CHR ''/'' \<notin> set (file_name info)) (file_embeddings t)
   \<Longrightarrow> list_all (\<lambda>(p, info). CHR ''/'' \<notin> set (file_name info))
         (file_embeddings (index_file fp e t))"
  by (simp add: index_file_def dict_set_names basename_no_slash)

lemma indexed_names:
  "list_all (\<lambda>(p, info). CHR ''/'' \<notin> set (file_name info)) (file_embeddings t)
   \<Longrightarrow> list_all (\<lambda>(p, info). CHR ''/'' \<notin> set (file_name info))
         (file_embeddings (fold (\<lambda>(fp, e). index_file fp e) ops t))"
proof (induction ops arbitrary: t)
  case Nil
  then show ?case by simp
next
  case (Cons a ops)
  obtain fp e where a: "a = (fp, e)" by (cases a)
  show ?case using Cons.IH [OF index_file_names [OF Cons.prems, of fp e]] a by simp
qed

lemma name_matches_empty:
  assumes "CHR ''/'' \<in> set fn"
    and "list_all (\<lambda>(p, info). CHR ''/'' \<notin> set (file_name info)) files"
  shows "name_matches fn files = []"
proof -
  have "\<not> sublist (lower fn) (lower (file_name info))" if "(p, info) \<in> set files" for p info
  proof
    assume "sublist (lower fn) (lower (file_name info))"
    then have "set (lower fn) \<subseteq> set (lower (file_name info))" by (rule sublist_set)
    moreover have "CHR ''/'' \<in> set (lower fn)" using assms(1) by (simp add: slash_in_lower)
    ultimately have "CHR ''/'' \<in> set (lower (file_name info))" by blast
    then have "CHR ''/'' \<in> set (file_name info)" by (simp add: slash_in_lower)
    then show False using assms(2) that by (auto simp: list_all_iff)
  qed
  then have "filter (\<lambda>(file_path, info). sublist (lower fn) (lower (file_name info))) files = []"
    by (auto simp: filter_empty_conv)
  then show ?thesis by (simp add: name_matches_def)
qed

text \<open>
  C10. When \<^verbatim>\<open>extract_file_name_from_query\<close> gives a name that contains \<^verbatim>\<open>/\<close>, the
  pass of \<^verbatim>\<open>get_relevant_files\<close> that scores 1.0 finds no file in a file index built
  by \<^verbatim>\<open>_index_file\<close> (every record holds the base name of its path, and the whole
  extracted name would have to occur in it), so the scores of the current topic are
  those of the embedding similarity.
\<close>

theorem path_qualified_name_matches_no_file:
  assumes "extract_file_name_from_query query = Some fn" and "CHR ''/'' \<in> set fn"
  shows "name_matches fn (file_embeddings (fold (\<lambda>(fp, e). index_file fp e) ops (new_Topic nm d))) = []
       \<and> current_topic_scores cs q thr (extract_file_name_from_query query)
            (file_embeddings (fold (\<lambda>(fp, e). index_file fp e) ops (new_Topic nm d)))
          = similarity_matches cs q thr
              (file_embeddings (fold (\<lambda>(fp, e). index_file fp e) ops (new_Topic nm d)))"
proof -
  let ?files = "file_embeddings (fold (\<lambda>(fp, e). index_file fp e) ops (new_Topic nm d))"
  have "list_all (\<lambda>(p, info). CHR ''/'' \<notin> set (file_name info)) ?files"
    by (rule indexed_names) (simp add: new_Topic_def)
  then have e: "name_matches fn ?files = []" using assms(2) by (rule name_matches_empty [rotated])
  have "fn \<noteq> []" using assms(2) by auto
  then show ?thesis using e assms(1) by (simp add: current_topic_scores_def)
qed

text \<open>C10 for a query that names the very file that is indexed.\<close>

theorem path_qualified_name_matches_no_file_witness:
  "extract_file_name_from_query ''open src/app/main.py and summarize'' = Some ''src/app/main.py''
   \<and> CHR ''/'' \<in> set ''src/app/main.py''
   \<and> name_matches ''src/app/main.py''
        (file_embeddings (index_file ''src/app/main.py'' [1, 0] (new_Topic [] []))) = []
   \<and> name_matches ''main.py''
        (file_embeddings (index_file ''src/app/main.py'' [1, 0] (new_Topic [] [])))
       = [(''src/app/main.py'', 1)]"
proof -
  have h1: "extract_file_name_from_query ''open src/app/main.py and summarize''
              = Some ''src/app/main.py''"
    by (simp add: extract_file_name_from_query_def match_at_def word_char_def alnum_char_def
        path_groups.simps Let_def)
  have h2: "CHR ''/'' \<in> set ''src/app/main.py''" by simp
  have h3: "name_matches ''main.py''
              (file_embeddings (index_file ''src/app/main.py'' [1, 0] (new_Topic [] [])))
            = [(''src/app/main.py'', 1)]"
    by (simp add: name_matches_def index_file_def new_Topic_def basename_def lower_def
        lower_char_def)
  show ?thesis
    using h1 h2 h3
      path_qualified_name_matches_no_file [OF h1 h2, of "[(''src/app/main.py'', [1, 0])]" "[]" "[]"]
    by simp
qed

end
